theory Spec2Isabelle
  imports Complex_Main "HOL-Library.Word" "HOL-Library.Sublist"
begin

section \<open>The dust input: data model\<close>

text \<open>
  The component \<^verbatim>\<open>DustInput\<close> of \<^verbatim>\<open>src/components/dust-input.tsx\<close>: a text input
  that spawns a burst of particles where a character was deleted, and an animation
  callback that advances, culls and paints the particles.

  JavaScript numbers are modelled as \<^typ>\<open>real\<close>: arithmetic is exact, there is no NaN
  and no infinity. A JavaScript string is its sequence of UTF-16 code units, which is what
  \<^verbatim>\<open>length\<close>, indexing and \<^verbatim>\<open>slice\<close> count.
\<close>

type_synonym code_unit = "16 word"
type_synonym js_string = "code_unit list"

definition SPACE :: code_unit where
  "SPACE = 0x20"

text \<open>\<^verbatim>\<open>s[i]\<close>: the code unit at index \<open>i\<close>, \<^verbatim>\<open>undefined\<close> (here \<open>None\<close>) out of range.\<close>

definition char_at :: "js_string \<Rightarrow> nat \<Rightarrow> code_unit option" where
  "char_at s i = (if i < length s then Some (s ! i) else None)"

text \<open>
  The interface \<^verbatim>\<open>Particle\<close>. The fields \<^verbatim>\<open>x\<close>, \<^verbatim>\<open>y\<close> and \<^verbatim>\<open>size\<close> carry a suffix, the
  other fields keep their names. A color read from the palette out of range would be
  \<^verbatim>\<open>undefined\<close>, so the field is an option.
\<close>

record particle =
  x_p :: real
  y_p :: real
  vx :: real
  vy :: real
  alpha :: real
  size_p :: real
  lifespan :: real
  color :: "string option"

text \<open>The constant \<^verbatim>\<open>particleSettings\<close>.\<close>

record settings =
  size_cfg :: real
  speed :: real
  wind :: real
  animationOffsetLeft :: real
  numberOfParticles :: nat
  lifespan_cfg :: real
  fadeSpeed :: real
  colors :: "string list"

definition particleSettings :: settings where
  "particleSettings =
     \<lparr> size_cfg = 1.25, speed = 5, wind = 1, animationOffsetLeft = 25,
       numberOfParticles = 120, lifespan_cfg = 120, fadeSpeed = 2,
       colors = [''#000000'', ''#969696'', ''#333333'', ''#404040'', ''#2e2e2e'',
                 ''#dbdbdb''] \<rparr>"

text \<open>The result of \<^verbatim>\<open>getBoundingClientRect()\<close>.\<close>

record rect =
  rect_left :: real
  rect_top :: real
  rect_width :: real
  rect_height :: real

text \<open>
  The input element behind \<^verbatim>\<open>inputRef\<close>: its \<^verbatim>\<open>dataset.previousValue\<close> (absent is
  \<open>None\<close>) and its bounding rectangle.
\<close>

record input_element =
  previousValue :: "js_string option"
  bounding :: rect

text \<open>
  The canvas element behind \<^verbatim>\<open>canvasRef\<close>: its logical dimensions and whether
  \<^verbatim>\<open>getContext('2d')\<close> yields a context.
\<close>

record canvas =
  canvas_width :: nat
  canvas_height :: nat
  has2d :: bool

text \<open>The calls \<^verbatim>\<open>animate\<close> makes on the 2D context, in the order it makes them.\<close>

datatype draw_cmd =
    ClearRect real real real real
  | GlobalAlpha real
  | FillStyle "string option"
  | BeginPath
  | Arc real real real real real
  | Fill

text \<open>
  \<^verbatim>\<open>Math.random()\<close> is an unending source of numbers: \<open>g 0\<close> is the next draw, and
  drawing shifts the source by one.
\<close>

type_synonym rng = "nat \<Rightarrow> real"

definition Math_random :: "rng \<Rightarrow> real \<times> rng" where
  "Math_random g = (g 0, \<lambda>n. g (Suc n))"

text \<open>
  The state the component's functions read and write. The three refs are the component's
  own; the rest is the environment they touch: the random source, the offscreen canvas's
  text measurement (\<open>None\<close> when \<^verbatim>\<open>getContext('2d')\<close> of the temporary canvas is null),
  the window's inner size, the drawing calls issued so far, and the number of
  \<^verbatim>\<open>requestAnimationFrame(animate)\<close> requests that have not run yet.
\<close>

record dust_state =
  inputRef :: "input_element option"
  canvasRef :: "canvas option"
  particlesRef :: "particle list"
  random_src :: rng
  measureText :: "(string \<Rightarrow> js_string \<Rightarrow> real) option"
  innerWidth :: nat
  innerHeight :: nat
  drawLog :: "draw_cmd list"
  rafQueue :: nat

text \<open>
  The input event: the target's \<^verbatim>\<open>value\<close>, the \<^verbatim>\<open>font\<close> of its computed style and its
  bounding rectangle.
\<close>

record input_event =
  target_value :: js_string
  target_font :: string
  target_rect :: rect

section \<open>createParticles\<close>

text \<open>
  The callback of \<^verbatim>\<open>Array.from\<close>: one particle from five draws, in the order the object
  literal evaluates its properties (x, y, vx, vy, color).
\<close>

definition new_particle :: "real \<Rightarrow> real \<Rightarrow> rng \<Rightarrow> particle \<times> rng" where
  "new_particle x y g =
     (let (r1, g1) = Math_random g;
          (r2, g2) = Math_random g1;
          (r3, g3) = Math_random g2;
          (r4, g4) = Math_random g3;
          (r5, g5) = Math_random g4;
          i = \<lfloor>r5 * real (length (colors particleSettings))\<rfloor>
      in (\<lparr> x_p = x + (r1 - 0.5) * 25,
             y_p = y + (r2 - 0.5) * 5,
             vx = r3 * speed particleSettings + wind particleSettings,
             vy = (r4 - 0.5) * speed particleSettings,
             alpha = 1,
             size_p = size_cfg particleSettings,
             lifespan = lifespan_cfg particleSettings,
             color = (if 0 \<le> i \<and> i < int (length (colors particleSettings))
                      then Some (colors particleSettings ! nat i) else None) \<rparr>, g5))"

text \<open>\<^verbatim>\<open>Array.from({ length: count }, ...)\<close>: the callback runs \<open>count\<close> times, in order.\<close>

fun array_from :: "nat \<Rightarrow> real \<Rightarrow> real \<Rightarrow> rng \<Rightarrow> particle list \<times> rng" where
  "array_from 0 x y g = ([], g)"
| "array_from (Suc n) x y g =
     (let (p, g1) = new_particle x y g;
          (ps, g2) = array_from n x y g1
      in (p # ps, g2))"

definition createParticles :: "real \<Rightarrow> real \<Rightarrow> nat \<Rightarrow> dust_state \<Rightarrow> dust_state" where
  "createParticles x y count s =
     (let (newParticles, g) = array_from count x y (random_src s)
      in s\<lparr> particlesRef := particlesRef s @ newParticles, random_src := g \<rparr>)"

section \<open>animate\<close>

text \<open>
  The callback of \<^verbatim>\<open>map\<close>: it updates the particle in place with one draw and returns
  the particle, or null (\<open>None\<close>) when its alpha is no longer positive. The division is
  that of the reals; every particle \<^verbatim>\<open>createParticles\<close> makes has the lifespan 120, and
  a lifespan of zero, where JavaScript would divide to an infinity, does not occur in the
  store.
\<close>

definition map_callback :: "particle \<Rightarrow> rng \<Rightarrow> particle option \<times> rng" where
  "map_callback p g =
     (let p1 = p\<lparr> x_p := x_p p + vx p \<rparr>;
          (r, g1) = Math_random g;
          p2 = p1\<lparr> y_p := y_p p1 + (vy p1 + (r - 0.5) * 0.5) \<rparr>;
          p3 = p2\<lparr> alpha := alpha p2 - fadeSpeed particleSettings / lifespan p2 \<rparr>;
          p4 = p3\<lparr> size_p := size_p p3 * 0.99 \<rparr>
      in (if alpha p4 > 0 then Some p4 else None, g1))"

text \<open>The four assignments of the callback, for a draw \<open>r\<close>.\<close>

definition advance :: "particle \<Rightarrow> real \<Rightarrow> particle" where
  "advance p r =
     p\<lparr> x_p := x_p p + vx p,
        y_p := y_p p + (vy p + (r - 0.5) * 0.5),
        alpha := alpha p - fadeSpeed particleSettings / lifespan p,
        size_p := size_p p * 0.99 \<rparr>"

fun map_particles :: "particle list \<Rightarrow> rng \<Rightarrow> particle option list \<times> rng" where
  "map_particles [] g = ([], g)"
| "map_particles (p # ps) g =
     (let (q, g1) = map_callback p g;
          (qs, g2) = map_particles ps g1
      in (q # qs, g2))"

text \<open>\<^verbatim>\<open>.filter((p) => p !== null)\<close>.\<close>

fun filter_not_null :: "particle option list \<Rightarrow> particle list" where
  "filter_not_null [] = []"
| "filter_not_null (None # qs) = filter_not_null qs"
| "filter_not_null (Some p # qs) = p # filter_not_null qs"

text \<open>The body of the \<^verbatim>\<open>forEach\<close> that paints one particle.\<close>

definition paint :: "particle \<Rightarrow> draw_cmd list" where
  "paint p =
     [GlobalAlpha (alpha p), FillStyle (color p), BeginPath,
      Arc (x_p p) (y_p p) (size_p p) 0 (pi * 2), Fill]"

definition animate :: "dust_state \<Rightarrow> dust_state" where
  "animate s =
     (case canvasRef s of
        None \<Rightarrow> s
      | Some canvas \<Rightarrow>
          if \<not> has2d canvas then s
          else
            let s1 = s\<lparr> drawLog := drawLog s @
                       [ClearRect 0 0 (real (canvas_width canvas)) (real (canvas_height canvas))] \<rparr>;
                s2 = (if length (particlesRef s1) > 0 then
                        let (qs, g) = map_particles (particlesRef s1) (random_src s1);
                            ps = filter_not_null qs
                        in s1\<lparr> particlesRef := ps, random_src := g,
                               drawLog := drawLog s1 @ concat (map paint ps) @ [GlobalAlpha 1] \<rparr>
                      else s1)
            in s2\<lparr> rafQueue := rafQueue s2 + 1 \<rparr>)"

text \<open>
  The environment's side of \<^verbatim>\<open>requestAnimationFrame\<close>: at a display refresh a pending
  request is taken from the queue and \<^verbatim>\<open>animate\<close> runs; with no request pending,
  nothing runs.
\<close>

definition frame :: "dust_state \<Rightarrow> dust_state" where
  "frame s = (if rafQueue s = 0 then s else animate (s\<lparr> rafQueue := rafQueue s - 1 \<rparr>))"

section \<open>resizeCanvas and the effect that installs it\<close>

text \<open>
  \<^verbatim>\<open>resizeCanvas\<close> is a closure over the mounted canvas: the effect returns before
  defining it when \<^verbatim>\<open>canvasRef.current\<close> is null, so with no canvas there is nothing
  to call and the state stays as it is.
\<close>

definition resizeCanvas :: "dust_state \<Rightarrow> dust_state" where
  "resizeCanvas s =
     (case canvasRef s of
        None \<Rightarrow> s
      | Some canvas \<Rightarrow>
          s\<lparr> canvasRef := Some (canvas\<lparr> canvas_width := innerWidth s,
                                         canvas_height := innerHeight s \<rparr>) \<rparr>)"

text \<open>The window's resize signal: the inner size changes, then the listener runs.\<close>

definition on_resize :: "nat \<times> nat \<Rightarrow> dust_state \<Rightarrow> dust_state" where
  "on_resize wh s = resizeCanvas (s\<lparr> innerWidth := fst wh, innerHeight := snd wh \<rparr>)"

text \<open>The effect on mount: size the canvas, then start the animation.\<close>

definition mount_effect :: "dust_state \<Rightarrow> dust_state" where
  "mount_effect s = (case canvasRef s of None \<Rightarrow> s | Some canvas \<Rightarrow> animate (resizeCanvas s))"

section \<open>getTextWidth and handleInput\<close>

text \<open>\<^verbatim>\<open>inputRef.current?.getBoundingClientRect().width ?? 0\<close>.\<close>

definition inputFieldWidth :: "dust_state \<Rightarrow> real" where
  "inputFieldWidth s =
     (case inputRef s of None \<Rightarrow> 0 | Some el \<Rightarrow> rect_width (bounding el))"

definition getTextWidth :: "js_string \<Rightarrow> string \<Rightarrow> dust_state \<Rightarrow> real" where
  "getTextWidth text font s =
     (case measureText s of
        Some ctx \<Rightarrow>
          let textWidth = ctx font text + animationOffsetLeft particleSettings;
              width = (if textWidth \<le> inputFieldWidth s then textWidth
                       else inputFieldWidth s)
          in width
      | None \<Rightarrow> 0)"

text \<open>
  \<^verbatim>\<open>inputRef.current?.dataset.previousValue || ''\<close>: the empty string when the ref is
  null, when the data attribute is absent and when it is the empty string.
\<close>

definition previous_text :: "dust_state \<Rightarrow> js_string" where
  "previous_text s =
     (case inputRef s of
        None \<Rightarrow> []
      | Some el \<Rightarrow> (case previousValue el of None \<Rightarrow> [] | Some v \<Rightarrow> v))"

text \<open>
  Inside the first test \<open>previousValue\<close> is not empty, so \<open>length previousValue - 1\<close> is
  the JavaScript difference.
\<close>

definition handleInput :: "input_event \<Rightarrow> dust_state \<Rightarrow> dust_state" where
  "handleInput e s =
     (let currentValue = target_value e;
          previousValue = previous_text s;
          fontStyle = target_font e;
          s1 = (if length currentValue < length previousValue then
                  let deletedCharIndex = length previousValue - 1;
                      charToDelete = char_at previousValue deletedCharIndex
                  in if charToDelete \<noteq> Some SPACE then
                       let textWidth = getTextWidth (take deletedCharIndex previousValue) fontStyle s;
                           inputRect = target_rect e;
                           x = rect_left inputRect + textWidth;
                           y = rect_top inputRect + rect_height inputRect / 2
                       in createParticles x y (numberOfParticles particleSettings) s
                     else s
                else s)
      in case inputRef s1 of
           None \<Rightarrow> s1
         | Some el \<Rightarrow> s1\<lparr> inputRef := Some (el\<lparr> previousValue := Some currentValue \<rparr>) \<rparr>)"

section \<open>Concrete inputs\<close>

text \<open>
  The strings "abc", "ab", "ab c" and "ab " as code units, an input field 300 wide at
  (100, 50), a mounted canvas, a measurement of ten pixels a code unit and a random
  source that always draws one half.
\<close>

definition str_abc :: js_string where
  "str_abc = [0x61, 0x62, 0x63]"

definition str_ab :: js_string where
  "str_ab = [0x61, 0x62]"

definition str_ab_c :: js_string where
  "str_ab_c = [0x61, 0x62, 0x20, 0x63]"

definition str_ab_space :: js_string where
  "str_ab_space = [0x61, 0x62, 0x20]"

definition demo_rect :: rect where
  "demo_rect = \<lparr> rect_left = 100, rect_top = 50, rect_width = 300, rect_height = 40 \<rparr>"

definition demo_canvas :: canvas where
  "demo_canvas = \<lparr> canvas_width = 800, canvas_height = 600, has2d = True \<rparr>"

definition demo_particle :: "real \<Rightarrow> particle" where
  "demo_particle a =
     \<lparr> x_p = 10, y_p = 20, vx = 3, vy = 1, alpha = a, size_p = 1, lifespan = 120,
       color = Some ''#333333'' \<rparr>"

definition demo_state :: "js_string \<Rightarrow> dust_state" where
  "demo_state prev =
     \<lparr> inputRef = Some \<lparr> previousValue = Some prev, bounding = demo_rect \<rparr>,
       canvasRef = Some demo_canvas,
       particlesRef = [],
       random_src = (\<lambda>n. 1 / 2),
       measureText = Some (\<lambda>font text. 10 * real (length text)),
       innerWidth = 800,
       innerHeight = 600,
       drawLog = [],
       rafQueue = 0 \<rparr>"

definition demo_event :: "js_string \<Rightarrow> input_event" where
  "demo_event cur =
     \<lparr> target_value = cur, target_font = ''20px sans-serif'', target_rect = demo_rect \<rparr>"

text \<open>
  A store of two particles, one at full alpha and one whose alpha is exactly one tick's
  decrement, 2 / 120.
\<close>

definition demo_tick :: dust_state where
  "demo_tick = demo_state [] \<lparr> particlesRef := [demo_particle 1, demo_particle (1 / 60)] \<rparr>"

section \<open>Facts about createParticles\<close>

lemma new_particle_eq:
  "new_particle x y g =
     (\<lparr> x_p = x + (g 0 - 0.5) * 25, y_p = y + (g 1 - 0.5) * 5,
        vx = g 2 * 5 + 1, vy = (g 3 - 0.5) * 5, alpha = 1, size_p = 1.25, lifespan = 120,
        color = (if 0 \<le> \<lfloor>g 4 * 6\<rfloor> \<and> \<lfloor>g 4 * 6\<rfloor> < 6
                 then Some (colors particleSettings ! nat \<lfloor>g 4 * 6\<rfloor>) else None) \<rparr>,
      \<lambda>n. g (n + 5))"
  by (simp add: new_particle_def Math_random_def particleSettings_def Let_def numeral_eq_Suc)

lemma array_from_length: "length (fst (array_from n x y g)) = n"
  by (induction n arbitrary: g) (auto simp: split_def Let_def)

lemma array_from_nth:
  "k < n \<Longrightarrow> fst (array_from n x y g) ! k = fst (new_particle x y (\<lambda>i. g (i + 5 * k)))"
proof (induction n arbitrary: g k)
  case 0
  then show ?case by simp
next
  case (Suc n)
  show ?case
  proof (cases k)
    case 0
    then show ?thesis by (simp add: split_def Let_def)
  next
    case (Suc j)
    with Suc.prems have "j < n" by simp
    from Suc.IH [OF this, of "snd (new_particle x y g)"] Suc show ?thesis
      by (simp add: split_def Let_def new_particle_eq add.commute add.left_commute)
  qed
qed

lemma array_from_origin:
  assumes "0 < n" "fst (array_from n x y g) = fst (array_from n x' y' g)"
  shows "x = x' \<and> y = y'"
proof -
  from assms(1) obtain m where "n = Suc m" by (cases n) auto
  with assms(2) show ?thesis
    by (simp add: split_def Let_def new_particle_eq)
qed

lemma createParticles_store:
  "particlesRef (createParticles x y n s) = particlesRef s @ fst (array_from n x y (random_src s))"
  by (simp add: createParticles_def split_def Let_def)

lemma createParticles_inputRef: "inputRef (createParticles x y n s) = inputRef s"
  by (simp add: createParticles_def split_def Let_def)

lemma floor_draw_index:
  fixes r :: real
  assumes "0 \<le> r" "r < 1"
  shows "0 \<le> \<lfloor>r * 6\<rfloor> \<and> \<lfloor>r * 6\<rfloor> < 6"
proof -
  from assms have "0 \<le> r * 6" "r * 6 < 6" by simp_all
  then show ?thesis by (simp add: floor_less_iff)
qed

lemma draw_ranges:
  fixes r :: real
  assumes "0 \<le> r" "r < 1"
  shows "- 12.5 \<le> (r - 0.5) * 25 \<and> (r - 0.5) * 25 < 12.5"
    and "- 2.5 \<le> (r - 0.5) * 5 \<and> (r - 0.5) * 5 < 2.5"
    and "0 \<le> r * 5 \<and> r * 5 < 5"
  using assms by simp_all

text \<open>
  C7 (as amended). For every count \<open>n\<close>, \<^verbatim>\<open>createParticles(x, y, n)\<close> appends exactly \<open>n\<close>
  particles to the store (for \<open>n = 0\<close> the state is unchanged). Each appended particle
  takes five draws of \<^verbatim>\<open>Math.random()\<close> of its own; with every draw in \<open>[0, 1)\<close>, its
  position is the origin plus a horizontal jitter \<open>(r - 0.5) * 25\<close> within \<open>[-12.5, 12.5)\<close>
  and a vertical jitter \<open>(r - 0.5) * 5\<close> within \<open>[-2.5, 2.5)\<close>, its \<open>vx\<close> is \<open>r * speed\<close>,
  within \<open>[0, speed)\<close>, plus the wind, its \<open>vy\<close> is \<open>(r - 0.5) * speed\<close>, within
  \<open>[-speed/2, speed/2)\<close>, its alpha is 1, its size and lifespan are the configured ones,
  and its color is the palette entry at the floor of \<open>r\<close> times the palette's length. Each
  quantity is that image of one draw, so it is as uniform as the draws are. The lower
  bounds are attained, at a draw of 0.
\<close>

theorem createParticles_appends:
  assumes "\<forall>k. 0 \<le> random_src s k \<and> random_src s k < 1"
  shows "\<exists>new. particlesRef (createParticles x y n s) = particlesRef s @ new \<and> length new = n \<and>
     (\<forall>p \<in> set new.
        alpha p = 1 \<and> size_p p = size_cfg particleSettings \<and>
        lifespan p = lifespan_cfg particleSettings \<and>
        color p \<in> Some ` set (colors particleSettings)) \<and>
     (\<forall>k < n.
        x_p (new ! k) = x + (random_src s (5 * k) - 0.5) * 25 \<and>
        - 12.5 \<le> (random_src s (5 * k) - 0.5) * 25 \<and>
        (random_src s (5 * k) - 0.5) * 25 < 12.5 \<and>
        y_p (new ! k) = y + (random_src s (5 * k + 1) - 0.5) * 5 \<and>
        - 2.5 \<le> (random_src s (5 * k + 1) - 0.5) * 5 \<and>
        (random_src s (5 * k + 1) - 0.5) * 5 < 2.5 \<and>
        vx (new ! k) = random_src s (5 * k + 2) * speed particleSettings + wind particleSettings \<and>
        0 \<le> random_src s (5 * k + 2) * speed particleSettings \<and>
        random_src s (5 * k + 2) * speed particleSettings < speed particleSettings \<and>
        vy (new ! k) = (random_src s (5 * k + 3) - 0.5) * speed particleSettings \<and>
        - (speed particleSettings / 2) \<le> vy (new ! k) \<and>
        vy (new ! k) < speed particleSettings / 2 \<and>
        color (new ! k) =
          Some (colors particleSettings !
            nat \<lfloor>random_src s (5 * k + 4) * real (length (colors particleSettings))\<rfloor>) \<and>
        nat \<lfloor>random_src s (5 * k + 4) * real (length (colors particleSettings))\<rfloor>
          < length (colors particleSettings)) \<and>
     createParticles x y 0 s = s"
proof -
  let ?new = "fst (array_from n x y (random_src s))"
  let ?r = "random_src s"
  have nth: "?new ! k = fst (new_particle x y (\<lambda>i. ?r (i + 5 * k)))" if "k < n" for k
    using that by (rule array_from_nth)
  have r: "0 \<le> ?r i" "?r i < 1" for i using assms by auto
  have len6: "length (colors particleSettings) = 6"
    by (simp add: particleSettings_def)
  have idx: "0 \<le> \<lfloor>?r i * 6\<rfloor> \<and> \<lfloor>?r i * 6\<rfloor> < 6" for i
    using r by (intro floor_draw_index)
  have idx_nat: "nat \<lfloor>?r i * 6\<rfloor> < 6" for i
    using idx [of i] by linarith
  have b: "\<forall>k < n.
        x_p (?new ! k) = x + (?r (5 * k) - 0.5) * 25 \<and>
        - 12.5 \<le> (?r (5 * k) - 0.5) * 25 \<and>
        (?r (5 * k) - 0.5) * 25 < 12.5 \<and>
        y_p (?new ! k) = y + (?r (5 * k + 1) - 0.5) * 5 \<and>
        - 2.5 \<le> (?r (5 * k + 1) - 0.5) * 5 \<and>
        (?r (5 * k + 1) - 0.5) * 5 < 2.5 \<and>
        vx (?new ! k) = ?r (5 * k + 2) * speed particleSettings + wind particleSettings \<and>
        0 \<le> ?r (5 * k + 2) * speed particleSettings \<and>
        ?r (5 * k + 2) * speed particleSettings < speed particleSettings \<and>
        vy (?new ! k) = (?r (5 * k + 3) - 0.5) * speed particleSettings \<and>
        - (speed particleSettings / 2) \<le> vy (?new ! k) \<and>
        vy (?new ! k) < speed particleSettings / 2 \<and>
        color (?new ! k) =
          Some (colors particleSettings !
            nat \<lfloor>?r (5 * k + 4) * real (length (colors particleSettings))\<rfloor>) \<and>
        nat \<lfloor>?r (5 * k + 4) * real (length (colors particleSettings))\<rfloor>
          < length (colors particleSettings)"
  proof (intro allI impI)
    fix k assume k: "k < n"
    have sp: "speed particleSettings = 5" "wind particleSettings = 1"
      by (simp_all add: particleSettings_def)
    have fields: "x_p (?new ! k) = x + (?r (5 * k) - 0.5) * 25"
      "y_p (?new ! k) = y + (?r (5 * k + 1) - 0.5) * 5"
      "vx (?new ! k) = ?r (5 * k + 2) * 5 + 1"
      "vy (?new ! k) = (?r (5 * k + 3) - 0.5) * 5"
      by (simp_all add: nth [OF k] new_particle_eq add.commute)
    have col: "color (?new ! k) = Some (colors particleSettings ! nat \<lfloor>?r (5 * k + 4) * 6\<rfloor>)"
      using idx [of "4 + 5 * k"] by (simp add: nth [OF k] new_particle_eq add.commute)
    from fields col draw_ranges [OF r [of "5 * k"]] draw_ranges [OF r [of "5 * k + 1"]]
      draw_ranges [OF r [of "5 * k + 2"]] draw_ranges [OF r [of "5 * k + 3"]]
      idx_nat [of "5 * k + 4"]
    show "x_p (?new ! k) = x + (?r (5 * k) - 0.5) * 25 \<and>
        - 12.5 \<le> (?r (5 * k) - 0.5) * 25 \<and>
        (?r (5 * k) - 0.5) * 25 < 12.5 \<and>
        y_p (?new ! k) = y + (?r (5 * k + 1) - 0.5) * 5 \<and>
        - 2.5 \<le> (?r (5 * k + 1) - 0.5) * 5 \<and>
        (?r (5 * k + 1) - 0.5) * 5 < 2.5 \<and>
        vx (?new ! k) = ?r (5 * k + 2) * speed particleSettings + wind particleSettings \<and>
        0 \<le> ?r (5 * k + 2) * speed particleSettings \<and>
        ?r (5 * k + 2) * speed particleSettings < speed particleSettings \<and>
        vy (?new ! k) = (?r (5 * k + 3) - 0.5) * speed particleSettings \<and>
        - (speed particleSettings / 2) \<le> vy (?new ! k) \<and>
        vy (?new ! k) < speed particleSettings / 2 \<and>
        color (?new ! k) =
          Some (colors particleSettings !
            nat \<lfloor>?r (5 * k + 4) * real (length (colors particleSettings))\<rfloor>) \<and>
        nat \<lfloor>?r (5 * k + 4) * real (length (colors particleSettings))\<rfloor>
          < length (colors particleSettings)"
      unfolding sp len6 by simp
  qed
  have a: "\<forall>p \<in> set ?new.
        alpha p = 1 \<and> size_p p = size_cfg particleSettings \<and>
        lifespan p = lifespan_cfg particleSettings \<and>
        color p \<in> Some ` set (colors particleSettings)"
  proof
    fix p assume "p \<in> set ?new"
    then obtain k where k: "k < n" and p: "p = ?new ! k"
      by (auto simp: in_set_conv_nth array_from_length)
    from b k have "color p =
          Some (colors particleSettings !
            nat \<lfloor>?r (5 * k + 4) * real (length (colors particleSettings))\<rfloor>)"
      and "nat \<lfloor>?r (5 * k + 4) * real (length (colors particleSettings))\<rfloor>
          < length (colors particleSettings)"
      unfolding p by blast+
    then have "color p \<in> Some ` set (colors particleSettings)"
      by (simp add: nth_mem)
    moreover have "alpha p = 1 \<and> size_p p = size_cfg particleSettings \<and>
        lifespan p = lifespan_cfg particleSettings"
      unfolding p nth [OF k] by (simp add: new_particle_eq particleSettings_def)
    ultimately show "alpha p = 1 \<and> size_p p = size_cfg particleSettings \<and>
        lifespan p = lifespan_cfg particleSettings \<and>
        color p \<in> Some ` set (colors particleSettings)"
      by simp
  qed
  have c: "createParticles x y 0 s = s"
    by (simp add: createParticles_def)
  have st: "particlesRef (createParticles x y n s) = particlesRef s @ ?new"
    by (rule createParticles_store)
  have len: "length ?new = n"
    by (rule array_from_length)
  from st len a b c show ?thesis
    by (intro exI [of _ ?new]) blast
qed

theorem createParticles_appends_witness:
  "(\<forall>k. 0 \<le> random_src (demo_state []) k \<and> random_src (demo_state []) k < 1) \<and>
   length (particlesRef (createParticles 145 70 2 (demo_state []))) = 2 \<and>
   x_p (particlesRef (createParticles 145 70 2 (demo_state [])) ! 1) = 145 \<and>
   vx (particlesRef (createParticles 145 70 2 (demo_state [])) ! 1) = 7 / 2"
proof -
  have h: "\<forall>k. 0 \<le> random_src (demo_state []) k \<and> random_src (demo_state []) k < 1"
    by (simp add: demo_state_def)
  have e: "particlesRef (demo_state []) = []" "random_src (demo_state []) = (\<lambda>n. 1 / 2)"
    by (simp_all add: demo_state_def)
  from createParticles_appends [OF h, of 145 70 2]
  obtain new where new: "particlesRef (createParticles 145 70 2 (demo_state [])) = new"
    and len: "length new = 2"
    and f: "x_p (new ! 1) = 145 + (random_src (demo_state []) (5 * 1) - 0.5) * 25"
      "vx (new ! 1) = random_src (demo_state []) (5 * 1 + 2) * speed particleSettings
         + wind particleSettings"
    unfolding e by (fastforce simp: e)
  from h new len f show ?thesis
    by (simp add: e particleSettings_def)
qed

text \<open>
  With every draw 0 the particle of a burst at the origin has \<open>x = -12.5\<close>, \<open>y = -2.5\<close> and
  \<open>vy = -2.5\<close>: the three ranges are closed below.
\<close>

theorem createParticles_open_range_counterexample:
  "\<not> (- 12.5 < x_p (hd (particlesRef
            (createParticles 0 0 1 (demo_state [] \<lparr> random_src := \<lambda>n. 0 \<rparr>))))) \<and>
   \<not> (- 2.5 < y_p (hd (particlesRef
            (createParticles 0 0 1 (demo_state [] \<lparr> random_src := \<lambda>n. 0 \<rparr>))))) \<and>
   \<not> (- (speed particleSettings / 2) < vy (hd (particlesRef
            (createParticles 0 0 1 (demo_state [] \<lparr> random_src := \<lambda>n. 0 \<rparr>)))))"
  by (simp add: createParticles_store demo_state_def new_particle_eq split_def Let_def
      particleSettings_def)

section \<open>Facts about getTextWidth and handleInput\<close>

lemma handleInput_store:
  "particlesRef (handleInput e s) =
     (if length (target_value e) < length (previous_text s)
         \<and> previous_text s ! (length (previous_text s) - 1) \<noteq> SPACE
      then particlesRef (createParticles
             (rect_left (target_rect e)
                + getTextWidth (take (length (previous_text s) - 1) (previous_text s)) (target_font e) s)
             (rect_top (target_rect e) + rect_height (target_rect e) / 2)
             (numberOfParticles particleSettings) s)
      else particlesRef s)"
  by (auto simp: handleInput_def Let_def char_at_def createParticles_inputRef split: option.splits)

lemma handleInput_inputRef:
  "inputRef (handleInput e s) =
     (case inputRef s of None \<Rightarrow> None
      | Some el \<Rightarrow> Some (el\<lparr> previousValue := Some (target_value e) \<rparr>))"
  by (auto simp: handleInput_def Let_def createParticles_inputRef split: option.splits)

lemma handleInput_prefix: "prefix (particlesRef s) (particlesRef (handleInput e s))"
  by (simp add: handleInput_store createParticles_store)


lemma getTextWidth_none: "measureText s = None \<Longrightarrow> getTextWidth t f s = 0"
  by (simp add: getTextWidth_def)

lemma getTextWidth_clamped:
  "0 \<le> inputFieldWidth s \<Longrightarrow> getTextWidth t f s \<le> inputFieldWidth s"
  by (simp add: getTextWidth_def Let_def split: option.splits)

lemma previous_text_demo [simp]: "previous_text (demo_state t) = t"
  by (simp add: previous_text_def demo_state_def)

lemma inputFieldWidth_demo [simp]: "inputFieldWidth (demo_state t) = 300"
  by (simp add: inputFieldWidth_def demo_state_def demo_rect_def)

lemma previous_text_measureText_update [simp]:
  "previous_text (s\<lparr> measureText := m \<rparr>) = previous_text s"
  by (simp add: previous_text_def)

text \<open>
  C1. With \<open>current\<close> the target's value and \<open>previous\<close> the recorded previous value,
  \<^verbatim>\<open>handleInput\<close> fires a burst, that is appends the configured 120 particles to the
  store, if and only if \<open>current\<close> is shorter than \<open>previous\<close> and the code unit at index
  \<open>length previous - 1\<close> of \<open>previous\<close> is not a space; otherwise the store is unchanged.
  In particular no burst fires when \<open>current\<close> is at least as long as \<open>previous\<close>, and none
  when \<open>previous\<close> ends in a space.
\<close>

theorem handleInput_burst_iff:
  "(particlesRef (handleInput e s) \<noteq> particlesRef s \<longleftrightarrow>
      length (target_value e) < length (previous_text s) \<and>
      previous_text s ! (length (previous_text s) - 1) \<noteq> SPACE) \<and>
   length (particlesRef (handleInput e s)) =
     length (particlesRef s) +
       (if length (target_value e) < length (previous_text s) \<and>
           previous_text s ! (length (previous_text s) - 1) \<noteq> SPACE
        then numberOfParticles particleSettings else 0) \<and>
   (length (previous_text s) \<le> length (target_value e) \<longrightarrow>
      particlesRef (handleInput e s) = particlesRef s) \<and>
   (previous_text s ! (length (previous_text s) - 1) = SPACE \<longrightarrow>
      particlesRef (handleInput e s) = particlesRef s)"
proof -
  have n: "numberOfParticles particleSettings = 120"
    by (simp add: particleSettings_def)
  have len: "length (particlesRef (handleInput e s)) =
     length (particlesRef s) +
       (if length (target_value e) < length (previous_text s) \<and>
           previous_text s ! (length (previous_text s) - 1) \<noteq> SPACE
        then numberOfParticles particleSettings else 0)"
    by (simp add: handleInput_store createParticles_store array_from_length)
  have "particlesRef (handleInput e s) \<noteq> particlesRef s \<longleftrightarrow>
      length (target_value e) < length (previous_text s) \<and>
      previous_text s ! (length (previous_text s) - 1) \<noteq> SPACE"
  proof (cases "length (target_value e) < length (previous_text s) \<and>
      previous_text s ! (length (previous_text s) - 1) \<noteq> SPACE")
    case True
    with len n have "length (particlesRef (handleInput e s)) \<noteq> length (particlesRef s)"
      by simp
    with True show ?thesis by auto
  next
    case False
    then show ?thesis by (auto simp: handleInput_store)
  qed
  moreover have "length (previous_text s) \<le> length (target_value e) \<longrightarrow>
      particlesRef (handleInput e s) = particlesRef s"
    by (simp add: handleInput_store)
  moreover have "previous_text s ! (length (previous_text s) - 1) = SPACE \<longrightarrow>
      particlesRef (handleInput e s) = particlesRef s"
    by (auto simp: handleInput_store)
  ultimately show ?thesis using len by blast
qed

theorem handleInput_burst_iff_witness:
  "particlesRef (handleInput (demo_event str_ab) (demo_state str_abc))
     \<noteq> particlesRef (demo_state str_abc) \<and>
   particlesRef (handleInput (demo_event str_ab) (demo_state str_ab_space))
     = particlesRef (demo_state str_ab_space) \<and>
   particlesRef (handleInput (demo_event str_abc) (demo_state str_ab))
     = particlesRef (demo_state str_ab)"
  using handleInput_burst_iff [of "demo_event str_ab" "demo_state str_abc"]
    handleInput_burst_iff [of "demo_event str_ab" "demo_state str_ab_space"]
    handleInput_burst_iff [of "demo_event str_abc" "demo_state str_ab"]
  by (simp add: demo_event_def str_ab_def str_abc_def str_ab_c_def str_ab_space_def SPACE_def)

text \<open>
  The pair previous = "ab c", current = "ab ": the last code unit of the previous value is
  the letter c, so this pair does fire a burst.
\<close>

lemma handleInput_ab_c_example:
  "length (particlesRef (handleInput (demo_event str_ab_space) (demo_state str_ab_c))) = 120"
  by (simp add: handleInput_store createParticles_store array_from_length demo_event_def
      str_ab_c_def str_ab_space_def SPACE_def particleSettings_def)
    (simp add: demo_state_def)



text \<open>
  C3 (as amended). When a burst fires and the measurement context is unavailable,
  \<^verbatim>\<open>getTextWidth\<close> yields 0, the offset included, so the burst is created at the
  target's left edge itself, at the vertical midpoint; \<^verbatim>\<open>handleInput\<close> still returns a
  state and raises nothing.
\<close>

theorem handleInput_without_measurement:
  assumes "length (target_value e) < length (previous_text s)"
    and "previous_text s ! (length (previous_text s) - 1) \<noteq> SPACE"
    and "measureText s = None"
  shows "particlesRef (handleInput e s) =
           particlesRef (createParticles
             (rect_left (target_rect e))
             (rect_top (target_rect e) + rect_height (target_rect e) / 2)
             (numberOfParticles particleSettings) s)"
  using assms by (simp add: handleInput_store getTextWidth_none)

theorem handleInput_without_measurement_witness:
  "particlesRef (handleInput (demo_event str_ab) (demo_state str_abc \<lparr> measureText := None \<rparr>)) =
     particlesRef (createParticles 100 70 120 (demo_state str_abc \<lparr> measureText := None \<rparr>))"
proof -
  let ?s = "demo_state str_abc \<lparr> measureText := None \<rparr>"
  have h1: "length (target_value (demo_event str_ab)) < length (previous_text ?s)"
    by (simp add: demo_event_def str_ab_def str_abc_def)
  have h2: "previous_text ?s ! (length (previous_text ?s) - 1) \<noteq> SPACE"
    by (simp add: str_abc_def SPACE_def)
  have h3: "measureText ?s = None" by simp
  from handleInput_without_measurement [OF h1 h2 h3] show ?thesis
    by (simp add: demo_event_def demo_rect_def particleSettings_def)
qed

text \<open>
  Without a measurement context the burst of the pair "abc", "ab" is not the burst created
  at the left edge plus the offset, 125: its first particle, with no jitter, is at 100.
\<close>

theorem handleInput_without_measurement_counterexample:
  "particlesRef (handleInput (demo_event str_ab) (demo_state str_abc \<lparr> measureText := None \<rparr>)) \<noteq>
     particlesRef (createParticles
       (rect_left (target_rect (demo_event str_ab)) + animationOffsetLeft particleSettings)
       (rect_top (target_rect (demo_event str_ab)) + rect_height (target_rect (demo_event str_ab)) / 2)
       (numberOfParticles particleSettings)
       (demo_state str_abc \<lparr> measureText := None \<rparr>)) \<and>
   x_p (particlesRef (handleInput (demo_event str_ab)
          (demo_state str_abc \<lparr> measureText := None \<rparr>)) ! 0) = 100 \<and>
   rect_left (target_rect (demo_event str_ab)) + animationOffsetLeft particleSettings = 125"
proof -
  let ?s = "demo_state str_abc \<lparr> measureText := None \<rparr>"
  let ?g = "random_src ?s"
  have st: "particlesRef (handleInput (demo_event str_ab) ?s) = fst (array_from 120 100 70 ?g)"
    by (simp add: handleInput_store getTextWidth_none createParticles_store demo_event_def
        demo_rect_def str_ab_def str_abc_def SPACE_def particleSettings_def)
      (simp add: demo_state_def)
  have "fst (array_from 120 100 70 ?g) \<noteq> fst (array_from 120 125 70 ?g)"
    using array_from_origin [of 120 100 70 ?g 125 70] by auto
  then have a: "particlesRef (handleInput (demo_event str_ab) ?s) \<noteq>
     particlesRef (createParticles
       (rect_left (target_rect (demo_event str_ab)) + animationOffsetLeft particleSettings)
       (rect_top (target_rect (demo_event str_ab)) + rect_height (target_rect (demo_event str_ab)) / 2)
       (numberOfParticles particleSettings) ?s)"
    unfolding st
    by (simp add: createParticles_store demo_event_def demo_rect_def particleSettings_def)
      (simp add: demo_state_def)
  have b: "x_p (particlesRef (handleInput (demo_event str_ab) ?s) ! 0) = 100"
    unfolding st by (simp add: array_from_nth new_particle_eq) (simp add: demo_state_def)
  have c: "rect_left (target_rect (demo_event str_ab)) + animationOffsetLeft particleSettings = 125"
    by (simp add: demo_event_def demo_rect_def particleSettings_def)
  from a b c show ?thesis by blast
qed

text \<open>
  C8. \<^verbatim>\<open>handleInput\<close> is only ever the \<^verbatim>\<open>onInput\<close> handler of the element that
  carries \<^verbatim>\<open>ref={inputRef}\<close>, so \<^verbatim>\<open>inputRef.current\<close> is attached at every invocation.
  After the invocation the recorded previous value is the event's current value, whether
  or not a burst fired.
\<close>

theorem handleInput_records_current:
  assumes "inputRef s = Some el"
  shows "inputRef (handleInput e s) = Some (el\<lparr> previousValue := Some (target_value e) \<rparr>) \<and>
         previous_text (handleInput e s) = target_value e"
  using assms by (simp add: handleInput_inputRef previous_text_def)

theorem handleInput_records_current_witness:
  "previous_text (handleInput (demo_event str_ab) (demo_state str_abc)) = str_ab \<and>
   previous_text (handleInput (demo_event str_abc) (demo_state str_ab)) = str_abc"
  using handleInput_records_current [of "demo_state str_abc" _ "demo_event str_ab"]
    handleInput_records_current [of "demo_state str_ab" _ "demo_event str_abc"]
  by (simp add: demo_state_def demo_event_def)

text \<open>
  The guard around the assignment, traced for completeness: were \<^verbatim>\<open>inputRef.current\<close>
  null, nothing would be recorded. No invocation of the component reaches this state.
\<close>

lemma handleInput_guard_skips:
  "inputRef (handleInput e (s\<lparr> inputRef := None \<rparr>)) = None"
  by (simp add: handleInput_inputRef)

section \<open>Facts about resizeCanvas\<close>

lemma resizeCanvas_store: "particlesRef (resizeCanvas s) = particlesRef s"
  by (simp add: resizeCanvas_def split: option.splits)

lemma on_resize_store: "particlesRef (on_resize wh s) = particlesRef s"
  by (simp add: on_resize_def resizeCanvas_store)

text \<open>
  C9. \<^verbatim>\<open>resizeCanvas\<close> leaves the particle store as it is, and so does any sequence of
  resize signals: the store, hence its length and every field of every particle, is the
  same before and after.
\<close>

theorem resize_keeps_particles:
  "particlesRef (resizeCanvas s) = particlesRef s \<and>
   particlesRef (fold on_resize whs s) = particlesRef s \<and>
   length (particlesRef (fold on_resize whs s)) = length (particlesRef s)"
proof -
  have "particlesRef (fold on_resize whs s) = particlesRef s"
    by (induction whs arbitrary: s) (simp_all add: on_resize_store)
  then show ?thesis by (simp add: resizeCanvas_store)
qed

theorem resize_keeps_particles_witness:
  "particlesRef (fold on_resize [(1024, 768), (640, 480)] demo_tick) =
     [demo_particle 1, demo_particle (1 / 60)] \<and>
   canvasRef (fold on_resize [(1024, 768), (640, 480)] demo_tick) =
     Some \<lparr> canvas_width = 640, canvas_height = 480, has2d = True \<rparr>"
  using resize_keeps_particles [of demo_tick "[(1024, 768), (640, 480)]"]
  by (simp add: demo_tick_def demo_state_def demo_canvas_def on_resize_def resizeCanvas_def)

section \<open>Facts about animate\<close>

lemma map_callback_eq:
  "map_callback p g =
     (if 0 < alpha (advance p (g 0)) then Some (advance p (g 0)) else None, \<lambda>n. g (Suc n))"
  by (simp add: map_callback_def Math_random_def advance_def Let_def)

lemma map_particles_eq:
  "map_particles ps g =
     (map (\<lambda>q. if 0 < alpha q then Some q else None)
        (map2 advance ps (map g [0..<length ps])),
      \<lambda>n. g (n + length ps))"
proof (induction ps arbitrary: g)
  case Nil
  then show ?case by simp
next
  case (Cons p ps)
  have "map g [0..<Suc (length ps)] = g 0 # map (\<lambda>n. g (Suc n)) [0..<length ps]"
    by (simp add: upt_conv_Cons map_Suc_upt [symmetric] del: upt_Suc)
  then show ?case
    by (simp add: Cons.IH map_callback_eq del: upt_Suc)
qed

lemma filter_not_null_eq:
  "filter_not_null (map (\<lambda>q. if P q then Some q else None) qs) = filter P qs"
  by (induction qs) auto

lemma animate_store:
  assumes "canvasRef s = Some c" "has2d c"
  shows "particlesRef (animate s) =
           filter (\<lambda>q. 0 < alpha q)
             (map2 advance (particlesRef s) (map (random_src s) [0..<length (particlesRef s)]))"
proof (cases "particlesRef s = []")
  case True
  with assms show ?thesis by (simp add: animate_def Let_def)
next
  case False
  have "filter_not_null (fst (map_particles (particlesRef s) (random_src s))) =
          filter (\<lambda>q. 0 < alpha q)
            (map2 advance (particlesRef s) (map (random_src s) [0..<length (particlesRef s)]))"
    by (simp only: map_particles_eq fst_conv filter_not_null_eq)
  with assms False show ?thesis
    by (simp add: animate_def Let_def split_def del: upt_Suc)
qed

lemma animate_rafQueue:
  assumes "canvasRef s = Some c" "has2d c"
  shows "rafQueue (animate s) = rafQueue s + 1"
  using assms by (simp add: animate_def Let_def split_def)

lemma animate_canvasRef: "canvasRef (animate s) = canvasRef s"
  by (simp add: animate_def Let_def split_def split: option.splits)

lemma animate_unavailable:
  "canvasRef s = None \<or> (\<exists>c. canvasRef s = Some c \<and> \<not> has2d c) \<Longrightarrow> animate s = s"
  by (auto simp: animate_def)

lemma frame_loop:
  assumes "canvasRef t = Some c" "has2d c" "0 < rafQueue t"
  shows "canvasRef ((frame ^^ n) t) = Some c \<and> rafQueue ((frame ^^ n) t) = rafQueue t"
proof (induction n)
  case 0
  from assms show ?case by simp
next
  case (Suc n)
  let ?u = "(frame ^^ n) t"
  from Suc have u: "canvasRef ?u = Some c" "rafQueue ?u = rafQueue t" by simp_all
  with assms(3) have f: "frame ?u = animate (?u\<lparr> rafQueue := rafQueue ?u - 1 \<rparr>)"
    by (simp add: frame_def)
  have "canvasRef (?u\<lparr> rafQueue := rafQueue ?u - 1 \<rparr>) = Some c" using u by simp
  from animate_rafQueue [OF this assms(2)] animate_canvasRef [of "?u\<lparr> rafQueue := rafQueue ?u - 1 \<rparr>"]
  show ?case using u assms(3) by (simp add: f)
qed

lemma advance_unfold:
  "advance p r =
     p\<lparr> x_p := x_p p + vx p, y_p := y_p p + vy p + (r - 0.5) * 0.5,
        alpha := alpha p - fadeSpeed particleSettings / lifespan p, size_p := size_p p * 0.99 \<rparr>"
  by (simp add: advance_def add.assoc)

lemma advance_fixed_fields:
  "\<exists>nx ny na nz. advance p r = p\<lparr> x_p := nx, y_p := ny, alpha := na, size_p := nz \<rparr>"
  unfolding advance_def by blast

lemma advance_projection:
  "length rs = length ps \<Longrightarrow>
     map (\<lambda>p. (vx p, vy p, lifespan p, color p)) (map2 advance ps rs) =
     map (\<lambda>p. (vx p, vy p, lifespan p, color p)) ps"
  by (induction ps rs rule: list_induct2') (simp_all add: advance_def)

text \<open>
  C4 (as amended). An invocation of \<^verbatim>\<open>animate\<close> that finds the canvas and its 2D context
  requests the next frame before it completes, and the loop the environment drives from
  there keeps one request pending after any number of frames. An invocation that finds the
  canvas or its context unavailable returns the state as it is, raising nothing: it paints
  nothing, touches no particle and requests no further frame.
\<close>

theorem animate_rearms_when_available:
  "(\<forall>c. canvasRef s = Some c \<and> has2d c \<longrightarrow>
      rafQueue (animate s) = rafQueue s + 1 \<and>
      (\<forall>n. rafQueue ((frame ^^ n) (animate s)) = rafQueue s + 1)) \<and>
   (canvasRef s = None \<or> (\<exists>c. canvasRef s = Some c \<and> \<not> has2d c) \<longrightarrow> animate s = s)"
proof -
  have "rafQueue ((frame ^^ n) (animate s)) = rafQueue s + 1"
    if c: "canvasRef s = Some c" "has2d c" for c n
  proof -
    have "canvasRef (animate s) = Some c" using c by (simp add: animate_canvasRef)
    moreover have "0 < rafQueue (animate s)" using animate_rafQueue [OF c] by simp
    ultimately have "rafQueue ((frame ^^ n) (animate s)) = rafQueue (animate s)"
      using c(2) frame_loop by blast
    then show ?thesis using animate_rafQueue [OF c] by simp
  qed
  then show ?thesis
    using animate_rafQueue animate_unavailable by blast
qed

theorem animate_rearms_when_available_witness:
  "rafQueue (animate (demo_state [])) = 1 \<and>
   rafQueue ((frame ^^ 3) (animate (demo_state []))) = 1 \<and>
   animate (demo_state [] \<lparr> canvasRef := None \<rparr>) = demo_state [] \<lparr> canvasRef := None \<rparr> \<and>
   animate (demo_state [] \<lparr> canvasRef := Some (demo_canvas \<lparr> has2d := False \<rparr>) \<rparr>) =
     demo_state [] \<lparr> canvasRef := Some (demo_canvas \<lparr> has2d := False \<rparr>) \<rparr>"
  using animate_rearms_when_available [of "demo_state []"]
    animate_rearms_when_available [of "demo_state [] \<lparr> canvasRef := None \<rparr>"]
    animate_rearms_when_available
      [of "demo_state [] \<lparr> canvasRef := Some (demo_canvas \<lparr> has2d := False \<rparr>) \<rparr>"]
  by (simp add: demo_state_def demo_canvas_def)

text \<open>
  With \<^verbatim>\<open>canvasRef.current\<close> null \<^verbatim>\<open>animate\<close> returns before
  \<^verbatim>\<open>requestAnimationFrame\<close>: no request is pending afterwards, and the next display
  refresh runs nothing.
\<close>

theorem animate_early_return_counterexample:
  "rafQueue (animate (demo_state [] \<lparr> canvasRef := None \<rparr>)) \<noteq>
     rafQueue (demo_state [] \<lparr> canvasRef := None \<rparr>) + 1 \<and>
   rafQueue (animate (demo_state [] \<lparr> canvasRef := None \<rparr>)) = 0 \<and>
   frame (animate (demo_state [] \<lparr> canvasRef := None \<rparr>)) = demo_state [] \<lparr> canvasRef := None \<rparr>"
  by (simp add: animate_def frame_def demo_state_def)

text \<open>
  C5. In a tick that finds the canvas and its context, every particle of the store is
  advanced: its \<open>x\<close> grows by \<open>vx\<close>, its \<open>y\<close> by \<open>vy\<close> plus the jitter \<open>(r - 0.5) * 0.5\<close> of
  its own draw \<open>r\<close>, its alpha drops by exactly \<^verbatim>\<open>fadeSpeed\<close> over its own lifespan, and
  its size is multiplied by 0.99; the new store holds the advanced particles whose alpha
  is still positive. With the draws in \<open>[0, 1)\<close> the jitter lies within \<open>[-0.25, 0.25)\<close>.
\<close>

theorem animate_advances_particles:
  assumes "canvasRef s = Some c" and "has2d c"
    and "\<forall>k. 0 \<le> random_src s k \<and> random_src s k < 1"
  shows "particlesRef (animate s) =
           filter (\<lambda>q. 0 < alpha q)
             (map2 (\<lambda>p r. p\<lparr> x_p := x_p p + vx p,
                              y_p := y_p p + vy p + (r - 0.5) * 0.5,
                              alpha := alpha p - fadeSpeed particleSettings / lifespan p,
                              size_p := size_p p * 0.99 \<rparr>)
                (particlesRef s) (map (random_src s) [0..<length (particlesRef s)])) \<and>
         (\<forall>k. - 0.25 \<le> (random_src s k - 0.5) * 0.5 \<and> (random_src s k - 0.5) * 0.5 < 0.25)"
proof -
  have "- 0.25 \<le> (random_src s k - 0.5) * 0.5 \<and> (random_src s k - 0.5) * 0.5 < 0.25" for k
    using assms(3) [rule_format, of k] by simp
  moreover have "advance = (\<lambda>p r. p\<lparr> x_p := x_p p + vx p,
                              y_p := y_p p + vy p + (r - 0.5) * 0.5,
                              alpha := alpha p - fadeSpeed particleSettings / lifespan p,
                              size_p := size_p p * 0.99 \<rparr>)"
    by (intro ext) (rule advance_unfold)
  ultimately show ?thesis
    using animate_store [OF assms(1,2)] by simp
qed

theorem animate_advances_particles_witness:
  "canvasRef demo_tick = Some demo_canvas \<and> has2d demo_canvas \<and>
   (\<forall>k. 0 \<le> random_src demo_tick k \<and> random_src demo_tick k < 1) \<and>
   particlesRef (animate demo_tick) =
     [\<lparr> x_p = 13, y_p = 21, vx = 3, vy = 1, alpha = 59 / 60, size_p = 99 / 100,
        lifespan = 120, color = Some ''#333333'' \<rparr>]"
proof -
  have h1: "canvasRef demo_tick = Some demo_canvas"
    by (simp add: demo_tick_def demo_state_def)
  have h2: "has2d demo_canvas" by (simp add: demo_canvas_def)
  have h3: "\<forall>k. 0 \<le> random_src demo_tick k \<and> random_src demo_tick k < 1"
    by (simp add: demo_tick_def demo_state_def)
  from animate_advances_particles [OF h1 h2 h3]
  have "particlesRef (animate demo_tick) =
     [\<lparr> x_p = 13, y_p = 21, vx = 3, vy = 1, alpha = 59 / 60, size_p = 99 / 100,
        lifespan = 120, color = Some ''#333333'' \<rparr>]"
    by (simp add: demo_tick_def demo_state_def demo_particle_def particleSettings_def)
  with h1 h2 h3 show ?thesis by simp
qed

text \<open>
  C6. In a tick that finds the canvas and its context, the new store is the list of
  advanced particles without those whose alpha after the update is at most 0: an advanced
  particle is in the new store if and only if its alpha is not \<open>\<le> 0\<close>, so one whose alpha is
  exactly 0 is removed. Nothing else removes a particle: \<^verbatim>\<open>createParticles\<close> and
  \<^verbatim>\<open>handleInput\<close> keep the old store as a prefix of the new one, and a resize leaves it
  as it is.
\<close>

theorem animate_culls_iff:
  assumes "canvasRef s = Some c" and "has2d c"
  shows "particlesRef (animate s) =
           filter (\<lambda>q. \<not> alpha q \<le> 0)
             (map2 advance (particlesRef s) (map (random_src s) [0..<length (particlesRef s)])) \<and>
         (\<forall>i < length (particlesRef s).
            alpha (advance (particlesRef s ! i) (random_src s i)) =
              alpha (particlesRef s ! i) - fadeSpeed particleSettings / lifespan (particlesRef s ! i) \<and>
            (advance (particlesRef s ! i) (random_src s i) \<in> set (particlesRef (animate s))
               \<longleftrightarrow> \<not> alpha (advance (particlesRef s ! i) (random_src s i)) \<le> 0)) \<and>
         prefix (particlesRef s) (particlesRef (createParticles x y n s)) \<and>
         prefix (particlesRef s) (particlesRef (handleInput e s)) \<and>
         particlesRef (resizeCanvas s) = particlesRef s \<and>
         particlesRef (on_resize wh s) = particlesRef s"
proof -
  let ?ps = "particlesRef s"
  let ?qs = "map2 advance ?ps (map (random_src s) [0..<length ?ps])"
  have st: "particlesRef (animate s) = filter (\<lambda>q. \<not> alpha q \<le> 0) ?qs"
    using animate_store [OF assms] by (simp add: not_le)
  have nth: "?qs ! i = advance (?ps ! i) (random_src s i)" if "i < length ?ps" for i
    using that by simp
  have mem: "advance (?ps ! i) (random_src s i) \<in> set (particlesRef (animate s))
               \<longleftrightarrow> \<not> alpha (advance (?ps ! i) (random_src s i)) \<le> 0"
    if i: "i < length ?ps" for i
  proof -
    have "?qs ! i \<in> set ?qs" using i by (intro nth_mem) simp
    then have "advance (?ps ! i) (random_src s i) \<in> set ?qs" using nth [OF i] by simp
    then show ?thesis unfolding st by simp
  qed
  have al: "alpha (advance p r) = alpha p - fadeSpeed particleSettings / lifespan p" for p r
    by (simp add: advance_def)
  from st mem al show ?thesis
    by (simp add: createParticles_store handleInput_prefix resizeCanvas_store on_resize_store)
qed

theorem animate_culls_iff_witness:
  "canvasRef demo_tick = Some demo_canvas \<and> has2d demo_canvas \<and>
   alpha (advance (demo_particle 1) (1 / 2)) = 59 / 60 \<and>
   alpha (advance (demo_particle (1 / 60)) (1 / 2)) = 0 \<and>
   advance (demo_particle 1) (1 / 2) \<in> set (particlesRef (animate demo_tick)) \<and>
   advance (demo_particle (1 / 60)) (1 / 2) \<notin> set (particlesRef (animate demo_tick))"
proof -
  have h1: "canvasRef demo_tick = Some demo_canvas"
    by (simp add: demo_tick_def demo_state_def)
  have h2: "has2d demo_canvas" by (simp add: demo_canvas_def)
  have a: "alpha (advance (demo_particle 1) (1 / 2)) = 59 / 60"
    "alpha (advance (demo_particle (1 / 60)) (1 / 2)) = 0"
    by (simp_all add: advance_def demo_particle_def particleSettings_def)
  have ps: "particlesRef demo_tick = [demo_particle 1, demo_particle (1 / 60)]"
    "random_src demo_tick = (\<lambda>n. 1 / 2)"
    by (simp_all add: demo_tick_def demo_state_def)
  note t = animate_culls_iff [OF h1 h2, of 0 0 0 "demo_event []" "(0, 0)"]
  from t have q: "\<forall>i < length (particlesRef demo_tick).
      alpha (advance (particlesRef demo_tick ! i) (random_src demo_tick i)) =
        alpha (particlesRef demo_tick ! i)
          - fadeSpeed particleSettings / lifespan (particlesRef demo_tick ! i) \<and>
      (advance (particlesRef demo_tick ! i) (random_src demo_tick i)
         \<in> set (particlesRef (animate demo_tick))
       \<longleftrightarrow> \<not> alpha (advance (particlesRef demo_tick ! i) (random_src demo_tick i)) \<le> 0)"
    by blast
  have "0 < length (particlesRef demo_tick)" by (simp add: ps)
  from q [rule_format, OF this]
  have m0: "advance (demo_particle 1) (1 / 2) \<in> set (particlesRef (animate demo_tick))
       \<longleftrightarrow> \<not> alpha (advance (demo_particle 1) (1 / 2)) \<le> 0"
    by (simp add: ps)
  have "1 < length (particlesRef demo_tick)" by (simp add: ps)
  from q [rule_format, OF this]
  have m1: "advance (demo_particle (1 / 60)) (1 / 2) \<in> set (particlesRef (animate demo_tick))
       \<longleftrightarrow> \<not> alpha (advance (demo_particle (1 / 60)) (1 / 2)) \<le> 0"
    by (simp add: ps)
  from m0 m1 a h1 h2 show ?thesis by simp
qed

text \<open>
  C10. A tick changes at most the \<open>x\<close>, \<open>y\<close>, alpha and size of a particle: the new store is
  a subsequence, in the same order, of a list that agrees with the old store position by
  position in every other field, so every survivor has the \<open>vx\<close>, \<open>vy\<close>, lifespan and color
  it had before the tick.
\<close>

theorem animate_keeps_velocity_lifespan_color:
  "\<exists>qs. length qs = length (particlesRef s) \<and>
         (\<forall>i < length (particlesRef s).
            \<exists>nx ny na nz.
              qs ! i = (particlesRef s ! i)\<lparr> x_p := nx, y_p := ny, alpha := na, size_p := nz \<rparr>) \<and>
         subseq (particlesRef (animate s)) qs \<and>
         subseq (map (\<lambda>p. (vx p, vy p, lifespan p, color p)) (particlesRef (animate s)))
                (map (\<lambda>p. (vx p, vy p, lifespan p, color p)) (particlesRef s))"
proof (cases "\<exists>c. canvasRef s = Some c \<and> has2d c")
  case True
  then obtain c where c: "canvasRef s = Some c" "has2d c" by blast
  let ?ps = "particlesRef s"
  let ?qs = "map2 advance ?ps (map (random_src s) [0..<length ?ps])"
  let ?f = "\<lambda>p. (vx p, vy p, lifespan p, color p)"
  have st: "particlesRef (animate s) = filter (\<lambda>q. 0 < alpha q) ?qs"
    by (rule animate_store [OF c])
  have len: "length ?qs = length ?ps" by simp
  have fields: "\<forall>i < length ?ps.
      \<exists>nx ny na nz. ?qs ! i = (?ps ! i)\<lparr> x_p := nx, y_p := ny, alpha := na, size_p := nz \<rparr>"
    by (simp add: advance_fixed_fields)
  have sub: "subseq (particlesRef (animate s)) ?qs"
    unfolding st by (rule subseq_filter_left)
  then have "subseq (map ?f (particlesRef (animate s))) (map ?f ?qs)"
    by (rule subseq_map)
  moreover have "map ?f ?qs = map ?f ?ps"
    by (rule advance_projection) simp
  ultimately have proj: "subseq (map ?f (particlesRef (animate s))) (map ?f ?ps)"
    by simp
  from len fields sub proj show ?thesis
    by (intro exI [of _ ?qs]) blast
next
  case False
  then have same: "animate s = s"
    by (intro animate_unavailable) (cases "canvasRef s", auto)
  have "\<forall>i < length (particlesRef s).
      \<exists>nx ny na nz.
        particlesRef s ! i = (particlesRef s ! i)\<lparr> x_p := nx, y_p := ny, alpha := na, size_p := nz \<rparr>"
  proof (intro allI impI)
    fix i
    have "particlesRef s ! i =
        (particlesRef s ! i)\<lparr> x_p := x_p (particlesRef s ! i), y_p := y_p (particlesRef s ! i),
          alpha := alpha (particlesRef s ! i), size_p := size_p (particlesRef s ! i) \<rparr>"
      by simp
    then show "\<exists>nx ny na nz.
        particlesRef s ! i = (particlesRef s ! i)\<lparr> x_p := nx, y_p := ny, alpha := na, size_p := nz \<rparr>"
      by blast
  qed
  then show ?thesis
    by (intro exI [of _ "particlesRef s"]) (simp add: same)
qed

theorem animate_keeps_velocity_lifespan_color_witness:
  "subseq (map (\<lambda>p. (vx p, vy p, lifespan p, color p)) (particlesRef (animate demo_tick)))
          [(3, 1, 120, Some ''#333333''), (3, 1, 120, Some ''#333333'')]"
proof -
  have ps: "particlesRef demo_tick = [demo_particle 1, demo_particle (1 / 60)]"
    by (simp add: demo_tick_def demo_state_def)
  from animate_keeps_velocity_lifespan_color [of demo_tick]
  have "subseq (map (\<lambda>p. (vx p, vy p, lifespan p, color p)) (particlesRef (animate demo_tick)))
          (map (\<lambda>p. (vx p, vy p, lifespan p, color p)) (particlesRef demo_tick))"
    by blast
  then show ?thesis
    by (simp add: ps demo_particle_def)
qed

end
